theory Spec2Isabelle
  imports Complex_Main "HOL-Library.Code_Target_Nat"
begin

section \<open>Python values\<close>

text \<open>
  The analyzer, the trust manager and the report generator exchange loosely typed
  dictionaries.  Their values are modelled by \<open>pyval\<close>.  A Python \<open>str\<close> is a list of
  Unicode code points (\<open>ustr\<close>), so that \<open>length\<close> is Python's \<open>len\<close>.  Dictionary keys
  are the ASCII key names the code reads and writes.  A finite \<open>float\<close> is represented by
  the rational number it denotes and float arithmetic is taken to be exact; the binary
  rounding error of IEEE doubles, infinities and NaN are outside the model.
\<close>

type_synonym ustr = "nat list"

definition u :: "string \<Rightarrow> ustr" where
  "u s = map of_char s"

datatype py_error =
  KeyError | TypeError | AttributeError | IndexError | ZeroDivisionError |
  UnboundLocalError | RequestError

datatype pyval =
    PNone
  | PBool bool
  | PInt int
  | PFloat rat
  | PStr ustr
  | PList "pyval list"
  | PDict "(string \<times> pyval) list"

text \<open>Sequencing of computations that may raise: the first exception wins.\<close>

definition then_do :: "py_error + 'a \<Rightarrow> ('a \<Rightarrow> py_error + 'b) \<Rightarrow> py_error + 'b" where
  "then_do m f = (case m of Inl e \<Rightarrow> Inl e | Inr v \<Rightarrow> f v)"

text \<open>Truth value testing (\<open>if x:\<close>, \<open>not x\<close>).\<close>

fun truthy :: "pyval \<Rightarrow> bool" where
  "truthy PNone = False"
| "truthy (PBool b) = b"
| "truthy (PInt i) = (i \<noteq> 0)"
| "truthy (PFloat q) = (q \<noteq> 0)"
| "truthy (PStr s) = (s \<noteq> [])"
| "truthy (PList xs) = (xs \<noteq> [])"
| "truthy (PDict d) = (d \<noteq> [])"

text \<open>\<open>bool\<close> and \<open>int\<close> are the integral numbers; \<open>float\<close> joins them in arithmetic.\<close>

fun int_of :: "pyval \<Rightarrow> int option" where
  "int_of (PBool b) = Some (if b then 1 else 0)"
| "int_of (PInt i) = Some i"
| "int_of _ = None"

fun num_of :: "pyval \<Rightarrow> rat option" where
  "num_of (PBool b) = Some (if b then 1 else 0)"
| "num_of (PInt i) = Some (of_int i)"
| "num_of (PFloat q) = Some q"
| "num_of _ = None"

text \<open>\<open>d[k]\<close> with a string key: only a dictionary can be subscripted by a string.\<close>

fun py_getitem :: "pyval \<Rightarrow> string \<Rightarrow> py_error + pyval" where
  "py_getitem (PDict d) k = (case map_of d k of None \<Rightarrow> Inl KeyError | Some v \<Rightarrow> Inr v)"
| "py_getitem _ k = Inl TypeError"

text \<open>\<open>d.get(k, default)\<close>: only dictionaries have the method.\<close>

fun py_get :: "pyval \<Rightarrow> string \<Rightarrow> pyval \<Rightarrow> py_error + pyval" where
  "py_get (PDict d) k dflt = (case map_of d k of None \<Rightarrow> Inr dflt | Some v \<Rightarrow> Inr v)"
| "py_get _ k dflt = Inl AttributeError"

text \<open>The binary operators \<open>+\<close>, \<open>-\<close> and \<open>*\<close>.\<close>

definition py_add :: "pyval \<Rightarrow> pyval \<Rightarrow> py_error + pyval" where
  "py_add a b =
     (case (int_of a, int_of b) of
        (Some i, Some j) \<Rightarrow> Inr (PInt (i + j))
      | _ \<Rightarrow>
        (case (num_of a, num_of b) of
           (Some x, Some y) \<Rightarrow> Inr (PFloat (x + y))
         | _ \<Rightarrow>
           (case (a, b) of
              (PStr s, PStr t) \<Rightarrow> Inr (PStr (s @ t))
            | (PList xs, PList ys) \<Rightarrow> Inr (PList (xs @ ys))
            | _ \<Rightarrow> Inl TypeError)))"

definition py_sub :: "pyval \<Rightarrow> pyval \<Rightarrow> py_error + pyval" where
  "py_sub a b =
     (case (int_of a, int_of b) of
        (Some i, Some j) \<Rightarrow> Inr (PInt (i - j))
      | _ \<Rightarrow>
        (case (num_of a, num_of b) of
           (Some x, Some y) \<Rightarrow> Inr (PFloat (x - y))
         | _ \<Rightarrow> Inl TypeError))"

definition py_mul :: "pyval \<Rightarrow> pyval \<Rightarrow> py_error + pyval" where
  "py_mul a b =
     (case (int_of a, int_of b) of
        (Some i, Some j) \<Rightarrow> Inr (PInt (i * j))
      | _ \<Rightarrow>
        (case (num_of a, num_of b) of
           (Some x, Some y) \<Rightarrow> Inr (PFloat (x * y))
         | _ \<Rightarrow>
           (case (a, int_of b) of
              (PStr s, Some n) \<Rightarrow> Inr (PStr (concat (replicate (nat n) s)))
            | (PList xs, Some n) \<Rightarrow> Inr (PList (concat (replicate (nat n) xs)))
            | _ \<Rightarrow>
              (case (int_of a, b) of
                 (Some n, PStr s) \<Rightarrow> Inr (PStr (concat (replicate (nat n) s)))
               | (Some n, PList xs) \<Rightarrow> Inr (PList (concat (replicate (nat n) xs)))
               | _ \<Rightarrow> Inl TypeError))))"

text \<open>
  Ordering comparisons against a number (every \<open><\<close> and \<open>>\<close> of the code has a numeric
  literal or a numeric configuration value on one side): they raise \<open>TypeError\<close> unless
  the other operand is a number as well.
\<close>

definition py_lt :: "pyval \<Rightarrow> rat \<Rightarrow> py_error + bool" where
  "py_lt v c = (case num_of v of None \<Rightarrow> Inl TypeError | Some x \<Rightarrow> Inr (x < c))"

definition py_gt :: "pyval \<Rightarrow> rat \<Rightarrow> py_error + bool" where
  "py_gt v c = (case num_of v of None \<Rightarrow> Inl TypeError | Some x \<Rightarrow> Inr (x > c))"

text \<open>
  \<open>min(c, v)\<close> and \<open>max(c, v)\<close> with an integer literal \<open>c\<close> first: the built-ins keep
  the first argument unless the second one is strictly smaller (larger).
\<close>

definition py_min :: "int \<Rightarrow> pyval \<Rightarrow> py_error + pyval" where
  "py_min c v = then_do (py_lt v (of_int c)) (\<lambda>b. Inr (if b then v else PInt c))"

definition py_max :: "int \<Rightarrow> pyval \<Rightarrow> py_error + pyval" where
  "py_max c v = then_do (py_gt v (of_int c)) (\<lambda>b. Inr (if b then v else PInt c))"

text \<open>
  \<open>round(v, ndigits)\<close>: an integral number is returned as an \<open>int\<close>, a float is rounded
  to the nearest multiple of \<open>10 ** -ndigits\<close>, ties to even.
\<close>

definition round_half_even :: "rat \<Rightarrow> int" where
  "round_half_even x =
     (let f = \<lfloor>x\<rfloor>; d = x - of_int f
      in if d < 1 / 2 then f else if 1 / 2 < d then f + 1 else if even f then f else f + 1)"

definition py_round :: "pyval \<Rightarrow> nat \<Rightarrow> py_error + pyval" where
  "py_round v nd =
     (case v of
        PBool b \<Rightarrow> Inr (PInt (if b then 1 else 0))
      | PInt i \<Rightarrow> Inr (PInt i)
      | PFloat q \<Rightarrow> Inr (PFloat (of_int (round_half_even (q * 10 ^ nd)) / 10 ^ nd))
      | _ \<Rightarrow> Inl TypeError)"

section \<open>The risk score (\<open>AccountAnalyzer._calculate_risk_score\<close>)\<close>

text \<open>Each factor of the score is one step on the running total \<open>risk_score\<close>.\<close>

definition age_factor :: "pyval \<Rightarrow> pyval \<Rightarrow> py_error + pyval" where
  "age_factor analysis risk_score =
     then_do (py_getitem analysis ''account_age'') (\<lambda>d.
     then_do (py_getitem d ''is_new'') (\<lambda>is_new.
       if truthy is_new then py_add risk_score (PInt 25) else Inr risk_score))"

definition ratio_factor :: "pyval \<Rightarrow> pyval \<Rightarrow> py_error + pyval" where
  "ratio_factor analysis risk_score =
     then_do (py_getitem analysis ''follower_following_ratio'') (\<lambda>d.
     then_do (py_getitem d ''is_suspicious'') (\<lambda>s.
       if truthy s then py_add risk_score (PInt 20) else Inr risk_score))"

definition bio_factor :: "pyval \<Rightarrow> pyval \<Rightarrow> py_error + pyval" where
  "bio_factor analysis risk_score =
     then_do (py_getitem analysis ''bio_analysis'') (\<lambda>d.
     then_do (py_getitem d ''risk_level'') (\<lambda>bio_risk.
       if bio_risk = PStr (u ''high'') then py_add risk_score (PInt 20)
       else if bio_risk = PStr (u ''medium'') then py_add risk_score (PInt 10)
       else Inr risk_score))"

definition content_factor :: "pyval \<Rightarrow> pyval \<Rightarrow> py_error + pyval" where
  "content_factor analysis risk_score =
     then_do (py_getitem analysis ''content_analysis'') (\<lambda>d.
     then_do (py_getitem d ''suspicious_content_ratio'') (\<lambda>suspicious_ratio.
     then_do (py_mul suspicious_ratio (PInt 15)) (\<lambda>p.
       py_add risk_score p)))"

definition engagement_factor :: "pyval \<Rightarrow> pyval \<Rightarrow> py_error + pyval" where
  "engagement_factor analysis risk_score =
     then_do (py_getitem analysis ''engagement_analysis'') (\<lambda>d.
     then_do (py_getitem d ''pattern'') (\<lambda>engagement_pattern.
       if engagement_pattern = PStr (u ''minimal_engagement'') then py_add risk_score (PInt 10)
       else if engagement_pattern = PStr (u ''high_engagement'') then py_sub risk_score (PInt 5)
       else Inr risk_score))"

definition activity_factor :: "pyval \<Rightarrow> pyval \<Rightarrow> py_error + pyval" where
  "activity_factor analysis risk_score =
     then_do (py_getitem analysis ''activity_patterns'') (\<lambda>d.
     then_do (py_getitem d ''consistent_activity'') (\<lambda>c.
       if \<not> truthy c then py_add risk_score (PInt 10) else Inr risk_score))"

definition verification_factor :: "pyval \<Rightarrow> pyval \<Rightarrow> py_error + pyval" where
  "verification_factor analysis risk_score =
     then_do (py_getitem analysis ''verification_status'') (\<lambda>v.
       if truthy v then py_sub risk_score (PInt 15) else Inr risk_score)"

text \<open>\<open>max(0, min(100, risk_score))\<close> followed by \<open>round(risk_score, 1)\<close>.\<close>

definition clamp_round :: "pyval \<Rightarrow> py_error + pyval" where
  "clamp_round risk_score =
     then_do (py_min 100 risk_score) (\<lambda>m.
     then_do (py_max 0 m) (\<lambda>c.
       py_round c 1))"

text \<open>The body of the \<open>try\<close> block.\<close>

definition risk_score_body :: "pyval \<Rightarrow> py_error + pyval" where
  "risk_score_body analysis =
     then_do (age_factor analysis (PInt 0)) (\<lambda>r1.
     then_do (ratio_factor analysis r1) (\<lambda>r2.
     then_do (bio_factor analysis r2) (\<lambda>r3.
     then_do (content_factor analysis r3) (\<lambda>r4.
     then_do (engagement_factor analysis r4) (\<lambda>r5.
     then_do (activity_factor analysis r5) (\<lambda>r6.
     then_do (verification_factor analysis r6) (\<lambda>r7.
       clamp_round r7)))))))"

text \<open>\<open>except Exception: return 50.0\<close>.\<close>

definition calculate_risk_score :: "pyval \<Rightarrow> pyval" where
  "calculate_risk_score analysis =
     (case risk_score_body analysis of Inl e \<Rightarrow> PFloat 50 | Inr v \<Rightarrow> v)"

section \<open>Strings\<close>

text \<open>The characters \<open>str.split()\<close> and \<open>str.strip()\<close> treat as whitespace.\<close>

definition is_space :: "nat \<Rightarrow> bool" where
  "is_space c \<longleftrightarrow>
     (9 \<le> c \<and> c \<le> 13) \<or> (28 \<le> c \<and> c \<le> 32) \<or> c = 133 \<or> c = 160 \<or> c = 5760 \<or>
     (8192 \<le> c \<and> c \<le> 8202) \<or> c = 8232 \<or> c = 8233 \<or> c = 8239 \<or> c = 8287 \<or> c = 12288"

definition py_strip :: "ustr \<Rightarrow> ustr" where
  "py_strip s = rev (dropWhile is_space (rev (dropWhile is_space s)))"

text \<open>\<open>sub in s\<close> for strings.\<close>

fun contains :: "ustr \<Rightarrow> ustr \<Rightarrow> bool" where
  "contains sub [] = (sub = [])"
| "contains sub (c # cs) = (take (length sub) (c # cs) = sub \<or> contains sub cs)"

text \<open>\<open>s.split(sep)\<close> for a one-character separator, and \<open>sep.join(parts)\<close>.\<close>

fun split_on :: "nat \<Rightarrow> ustr \<Rightarrow> ustr list" where
  "split_on sep [] = [[]]"
| "split_on sep (c # cs) =
     (if c = sep then [] # split_on sep cs
      else (case split_on sep cs of [] \<Rightarrow> [[c]] | w # ws \<Rightarrow> (c # w) # ws))"

fun join_u :: "ustr \<Rightarrow> ustr list \<Rightarrow> ustr" where
  "join_u sep [] = []"
| "join_u sep [s] = s"
| "join_u sep (s # t # ss) = s @ sep @ join_u sep (t # ss)"

text \<open>\<open>s.split()[0]\<close>: the first whitespace-delimited word; \<open>IndexError\<close> when there is none.\<close>

definition first_word :: "ustr \<Rightarrow> py_error + ustr" where
  "first_word s =
     (let t = dropWhile is_space s
      in if t = [] then Inl IndexError else Inr (takeWhile (\<lambda>c. \<not> is_space c) t))"

text \<open>\<open>list[i]\<close> for a literal index \<open>i \<ge> 0\<close>.\<close>

definition py_index :: "'a list \<Rightarrow> nat \<Rightarrow> py_error + 'a" where
  "py_index xs i = (if i < length xs then Inr (xs ! i) else Inl IndexError)"

text \<open>
  \<open>join\<close> accepts only strings: the items of a list as strings, or the \<open>TypeError\<close> of
  \<open>str.join\<close> when one of them is not a \<open>str\<close>.
\<close>

fun strs_of :: "pyval list \<Rightarrow> py_error + ustr list" where
  "strs_of [] = Inr []"
| "strs_of (PStr s # vs) = then_do (strs_of vs) (\<lambda>ss. Inr (s # ss))"
| "strs_of (_ # vs) = Inl TypeError"

definition py_len :: "pyval \<Rightarrow> py_error + int" where
  "py_len v =
     (case v of
        PStr s \<Rightarrow> Inr (int (length s))
      | PList xs \<Rightarrow> Inr (int (length xs))
      | PDict d \<Rightarrow> Inr (int (length d))
      | _ \<Rightarrow> Inl TypeError)"

text \<open>Decimal digits of an integer, as \<open>str(i)\<close> prints them.\<close>

fun digits_of :: "nat \<Rightarrow> ustr" where
  "digits_of n = (if n < 10 then [48 + n] else digits_of (n div 10) @ [48 + n mod 10])"

declare digits_of.simps [simp del]

definition str_int :: "int \<Rightarrow> ustr" where
  "str_int i = (if i < 0 then 45 # digits_of (nat (- i)) else digits_of (nat i))"

text \<open>
  The text an f-string substitutes for a value.  The printed forms of floats, lists and
  dictionaries belong to the Python runtime; they are the parameter \<open>repr_other\<close>.
\<close>

fun py_format :: "(pyval \<Rightarrow> ustr) \<Rightarrow> pyval \<Rightarrow> ustr" where
  "py_format repr_other (PStr s) = s"
| "py_format repr_other (PInt i) = str_int i"
| "py_format repr_other (PBool b) = (if b then u ''True'' else u ''False'')"
| "py_format repr_other PNone = u ''None''"
| "py_format repr_other v = repr_other v"

text \<open>\<open>v // c\<close> for a positive integer literal \<open>c\<close>.\<close>

definition py_floordiv :: "pyval \<Rightarrow> int \<Rightarrow> py_error + pyval" where
  "py_floordiv v c =
     (case int_of v of
        Some i \<Rightarrow> Inr (PInt (i div c))
      | None \<Rightarrow>
        (case v of
           PFloat q \<Rightarrow> Inr (PFloat (of_int \<lfloor>q / of_int c\<rfloor>))
         | _ \<Rightarrow> Inl TypeError))"

section \<open>The report generator (\<open>ReportGenerator\<close>)\<close>

definition trust_status_direct :: ustr where
  "trust_status_direct =
     [9989] @ u '' VERIFIED TRUSTED ACCOUNT'' @ [10, 8226] @
     u '' Account is on Project RUGGUARD'' @ [39] @ u ''s trusted list'' @ [10, 8226] @
     u '' Automatically vouched by the system''"

definition trust_status_network :: "ustr \<Rightarrow> ustr" where
  "trust_status_network count =
     [129309] @ u '' NETWORK BACKED ACCOUNT'' @ [10, 8226] @ u '' Followed by '' @ count @
     u '' trusted accounts from our list'' @ [10, 8226] @
     u '' Meets minimum threshold of 3 trusted followers''"

definition trust_status_partial :: "ustr \<Rightarrow> ustr" where
  "trust_status_partial trusted_count =
     [9888, 65039] @ u '' PARTIALLY BACKED'' @ [10, 8226] @ u '' Followed by '' @ trusted_count @
     u '' trusted account(s)'' @ [10, 8226] @ u '' Needs 3+ for full verification''"

definition trust_status_unverified :: ustr where
  "trust_status_unverified =
     [10060] @ u '' UNVERIFIED ACCOUNT'' @ [10, 8226] @ u '' Not on trusted list'' @ [10, 8226] @
     u '' No trusted accounts following'' @ [10, 8226] @ u '' Requires manual verification''"

definition trust_status_unknown :: ustr where
  "trust_status_unknown = [10067] @ u '' UNKNOWN: Unable to verify trust status''"

text \<open>
  \<open>_generate_trust_status\<close>.  A trusted score whose level is neither \<open>directly_trusted\<close>
  nor \<open>network_backed\<close> falls off the end of the function, which returns \<open>None\<close>.
\<close>

definition generate_trust_status_body :: "(pyval \<Rightarrow> ustr) \<Rightarrow> pyval \<Rightarrow> py_error + pyval" where
  "generate_trust_status_body repr_other trust_score =
     then_do (py_get trust_score ''is_trusted'' (PBool False)) (\<lambda>is_trusted.
       if truthy is_trusted then
         then_do (py_get trust_score ''trust_level'' (PStr (u ''unknown''))) (\<lambda>trust_level.
           if trust_level = PStr (u ''directly_trusted'') then Inr (PStr trust_status_direct)
           else if trust_level = PStr (u ''network_backed'') then
             then_do (py_get trust_score ''trusted_followers'' (PList [])) (\<lambda>trusted_followers.
             then_do (py_len trusted_followers) (\<lambda>count.
               Inr (PStr (trust_status_network (str_int count)))))
           else Inr PNone)
       else
         then_do (py_get trust_score ''trusted_followers_count'' (PInt 0)) (\<lambda>trusted_count.
         then_do (py_gt trusted_count 0) (\<lambda>positive.
           if positive
           then Inr (PStr (trust_status_partial (py_format repr_other trusted_count)))
           else Inr (PStr trust_status_unverified))))"

definition generate_trust_status :: "(pyval \<Rightarrow> ustr) \<Rightarrow> pyval \<Rightarrow> pyval" where
  "generate_trust_status repr_other trust_score =
     (case generate_trust_status_body repr_other trust_score of
        Inl e \<Rightarrow> PStr trust_status_unknown
      | Inr v \<Rightarrow> v)"

text \<open>\<open>_generate_risk_assessment\<close>.\<close>

definition risk_line :: "nat \<Rightarrow> ustr \<Rightarrow> ustr \<Rightarrow> ustr" where
  "risk_line risk_emoji risk_label risk_score =
     [risk_emoji] @ u '' '' @ risk_label @ u '' (Score: '' @ risk_score @ u ''/100)''"

definition generate_risk_assessment_body :: "(pyval \<Rightarrow> ustr) \<Rightarrow> pyval \<Rightarrow> py_error + ustr" where
  "generate_risk_assessment_body repr_other analysis =
     then_do (py_get analysis ''risk_score'' (PInt 50)) (\<lambda>risk_score.
     then_do (py_lt risk_score 20) (\<lambda>b20.
       if b20 then Inr (risk_line 128994 (u ''LOW RISK'') (py_format repr_other risk_score))
       else then_do (py_lt risk_score 40) (\<lambda>b40.
         if b40
         then Inr (risk_line 128993 (u ''MODERATE RISK'') (py_format repr_other risk_score))
         else then_do (py_lt risk_score 70) (\<lambda>b70.
           if b70
           then Inr (risk_line 128992 (u ''HIGH RISK'') (py_format repr_other risk_score))
           else Inr (risk_line 128308 (u ''VERY HIGH RISK'')
                       (py_format repr_other risk_score))))))"

definition generate_risk_assessment :: "(pyval \<Rightarrow> ustr) \<Rightarrow> pyval \<Rightarrow> ustr" where
  "generate_risk_assessment repr_other analysis =
     (case generate_risk_assessment_body repr_other analysis of
        Inl e \<Rightarrow> [10067] @ u '' RISK: Unable to calculate''
      | Inr s \<Rightarrow> s)"

text \<open>\<open>_generate_key_metrics\<close>: one entry each for age, followers and engagement.\<close>

definition age_metric :: "(pyval \<Rightarrow> ustr) \<Rightarrow> pyval \<Rightarrow> py_error + ustr" where
  "age_metric repr_other analysis =
     then_do (py_get analysis ''account_age'' (PDict [])) (\<lambda>age_data.
     then_do (py_get age_data ''days'' (PInt 0)) (\<lambda>age_days.
     then_do (py_gt age_days 365) (\<lambda>years.
       if years then
         then_do (py_floordiv age_days 365) (\<lambda>y.
           Inr ([128197] @ u '' '' @ py_format repr_other y @ u ''y old''))
       else then_do (py_gt age_days 30) (\<lambda>months.
         if months then
           then_do (py_floordiv age_days 30) (\<lambda>m.
             Inr ([128197] @ u '' '' @ py_format repr_other m @ u ''m old''))
         else Inr ([128197] @ u '' '' @ py_format repr_other age_days @ u ''d old'')))))"

definition followers_metric :: "(pyval \<Rightarrow> ustr) \<Rightarrow> pyval \<Rightarrow> py_error + ustr" where
  "followers_metric repr_other analysis =
     then_do (py_get analysis ''raw_metrics'' (PDict [])) (\<lambda>raw_metrics.
     then_do (py_get raw_metrics ''followers_count'' (PInt 0)) (\<lambda>followers.
     then_do (py_gt followers 1000000) (\<lambda>millions.
       if millions then
         then_do (py_floordiv followers 1000000) (\<lambda>m.
           Inr ([128101] @ u '' '' @ py_format repr_other m @ u ''M followers''))
       else then_do (py_gt followers 1000) (\<lambda>thousands.
         if thousands then
           then_do (py_floordiv followers 1000) (\<lambda>k.
             Inr ([128101] @ u '' '' @ py_format repr_other k @ u ''K followers''))
         else Inr ([128101] @ u '' '' @ py_format repr_other followers @ u '' followers'')))))"

definition engagement_metric :: "pyval \<Rightarrow> py_error + ustr" where
  "engagement_metric analysis =
     then_do (py_get analysis ''engagement_analysis'' (PDict [])) (\<lambda>engagement.
     then_do (py_get engagement ''avg_likes'' (PInt 0)) (\<lambda>avg_likes.
     then_do (py_gt avg_likes 100) (\<lambda>high.
       if high then Inr ([128202] @ u '' High engagement'')
       else then_do (py_gt avg_likes 10) (\<lambda>moderate.
         if moderate then Inr ([128202] @ u '' Moderate engagement'')
         else Inr ([128202] @ u '' Low engagement'')))))"

definition generate_key_metrics_body :: "(pyval \<Rightarrow> ustr) \<Rightarrow> pyval \<Rightarrow> py_error + ustr" where
  "generate_key_metrics_body repr_other analysis =
     then_do (age_metric repr_other analysis) (\<lambda>m1.
     then_do (followers_metric repr_other analysis) (\<lambda>m2.
     then_do (engagement_metric analysis) (\<lambda>m3.
       Inr (join_u (u '' | '') [m1, m2, m3]))))"

definition generate_key_metrics :: "(pyval \<Rightarrow> ustr) \<Rightarrow> pyval \<Rightarrow> ustr" where
  "generate_key_metrics repr_other analysis =
     (case generate_key_metrics_body repr_other analysis of
        Inl e \<Rightarrow> [128202] @ u '' Metrics unavailable''
      | Inr s \<Rightarrow> s)"

text \<open>\<open>_generate_detailed_analysis\<close>: the entries appended to \<open>details\<close>, in order.\<close>

definition bio_details :: "pyval \<Rightarrow> py_error + ustr list" where
  "bio_details analysis =
     then_do (py_get analysis ''bio_analysis'' (PDict [])) (\<lambda>bio_analysis.
     then_do (py_get bio_analysis ''has_bio'' (PBool False)) (\<lambda>has_bio.
       if truthy has_bio then
         then_do (py_get bio_analysis ''risk_level'' (PStr (u ''unknown''))) (\<lambda>risk_level.
           if risk_level = PStr (u ''high'')
           then Inr [[9888, 65039] @ u '' Suspicious bio content'']
           else if risk_level = PStr (u ''low'') then Inr [[9989] @ u '' Clean bio content'']
           else Inr [])
       else Inr [[9888, 65039] @ u '' No bio'']))"

definition activity_details :: "pyval \<Rightarrow> py_error + ustr list" where
  "activity_details analysis =
     then_do (py_get analysis ''activity_patterns'' (PDict [])) (\<lambda>activity.
     then_do (py_get activity ''recent_activity'' (PBool False)) (\<lambda>recent.
       if truthy recent then Inr [[9989] @ u '' Recently active'']
       else Inr [[9888, 65039] @ u '' Inactive recently'']))"

definition content_details :: "pyval \<Rightarrow> py_error + ustr list" where
  "content_details analysis =
     then_do (py_get analysis ''content_analysis'' (PDict [])) (\<lambda>content.
     then_do (py_get content ''suspicious_content_ratio'' (PInt 0)) (\<lambda>suspicious_ratio.
     then_do (py_gt suspicious_ratio (3 / 10)) (\<lambda>high.
       if high then Inr [[128680] @ u '' High suspicious content'']
       else then_do (py_gt suspicious_ratio (1 / 10)) (\<lambda>some_hits.
         if some_hits then Inr [[9888, 65039] @ u '' Some suspicious content'']
         else Inr [[9989] @ u '' Clean content'']))))"

definition verification_details :: "pyval \<Rightarrow> py_error + ustr list" where
  "verification_details analysis =
     then_do (py_get analysis ''verification_status'' (PBool False)) (\<lambda>verified.
       if truthy verified then Inr [[9989] @ u '' Verified account''] else Inr [])"

definition generate_detailed_analysis_body :: "pyval \<Rightarrow> py_error + ustr" where
  "generate_detailed_analysis_body analysis =
     then_do (bio_details analysis) (\<lambda>d1.
     then_do (activity_details analysis) (\<lambda>d2.
     then_do (content_details analysis) (\<lambda>d3.
     then_do (verification_details analysis) (\<lambda>d4.
       let details = d1 @ d2 @ d3 @ d4
       in Inr (if details \<noteq> [] then join_u (u '' | '') details
               else u ''Analysis complete'')))))"

definition generate_detailed_analysis :: "pyval \<Rightarrow> ustr" where
  "generate_detailed_analysis analysis =
     (case generate_detailed_analysis_body analysis of
        Inl e \<Rightarrow> u ''Analysis details unavailable''
      | Inr s \<Rightarrow> s)"

text \<open>\<open>_truncate_report\<close>, on the parts that \<open>join\<close> has accepted as strings.\<close>

definition short_footer :: ustr where
  "short_footer = [9888, 65039] @ u '' DYOR! #RUGGUARD''"

definition compact_username :: "ustr \<Rightarrow> py_error + ustr" where
  "compact_username header =
     (if 64 \<in> set header
      then then_do (py_index (split_on 64 header) 1) (\<lambda>after_at. first_word after_at)
      else Inr (u ''user''))"

definition compact_trust_line :: "ustr \<Rightarrow> py_error + ustr" where
  "compact_trust_line status =
     (if 58 \<in> set status then py_index (split_on 58 status) 0 else Inr status)"

definition compact_risk_line :: "ustr \<Rightarrow> py_error + ustr" where
  "compact_risk_line risk =
     (if 40 \<in> set risk
      then then_do (py_index (split_on 40 risk) 0) (\<lambda>label. Inr (py_strip label))
      else Inr risk)"

definition truncate_report_body :: "ustr list \<Rightarrow> py_error + ustr" where
  "truncate_report_body report_parts =
     then_do (py_index report_parts 0) (\<lambda>p0.
     then_do (py_index report_parts 2) (\<lambda>p2.
     then_do (py_index report_parts 3) (\<lambda>p3.
     then_do (py_index report_parts 4) (\<lambda>p4.
       let truncated = join_u [10] [p0, p2, p3, p4, short_footer]
       in if length truncated > 280 then
            then_do (compact_username p0) (\<lambda>username.
            then_do (compact_trust_line p2) (\<lambda>trust_line.
            then_do (compact_risk_line p3) (\<lambda>risk_line.
              Inr (take 280 ([128269] @ u '' @'' @ username @ [10] @ trust_line @ [10] @
                             risk_line @ [10] @ short_footer)))))
          else Inr (take 280 truncated)))))"

definition truncate_report :: "ustr list \<Rightarrow> ustr" where
  "truncate_report report_parts =
     (case truncate_report_body report_parts of
        Inl e \<Rightarrow>
          [128269] @ u '' RUGGUARD: Analysis complete. Check logs for details. #RUGGUARD''
      | Inr s \<Rightarrow> s)"

text \<open>
  \<open>generate_report\<close>.  The \<open>try\<close> block first binds \<open>username\<close> and then composes the
  report; the handler formats \<open>username\<close> into the generic error text.  When the very
  first statement raises, \<open>username\<close> was never assigned and the handler itself raises
  \<open>UnboundLocalError\<close>, which leaves the function.
\<close>

definition report_parts_of :: "(pyval \<Rightarrow> ustr) \<Rightarrow> pyval \<Rightarrow> pyval \<Rightarrow> pyval \<Rightarrow> pyval list" where
  "report_parts_of repr_other username analysis trust_score =
     [PStr ([128269] @ u '' RUGGUARD TRUST REPORT for @'' @ py_format repr_other username),
      PStr [],
      generate_trust_status repr_other trust_score,
      PStr (generate_risk_assessment repr_other analysis),
      PStr (generate_key_metrics repr_other analysis),
      PStr (generate_detailed_analysis analysis),
      PStr [],
      PStr ([9888, 65039] @ u '' This is an automated analysis. DYOR!''),
      PStr (u ''#RUGGUARD #TrustScore'')]"

definition compose_report :: "(pyval \<Rightarrow> ustr) \<Rightarrow> pyval \<Rightarrow> pyval \<Rightarrow> pyval \<Rightarrow> py_error + ustr" where
  "compose_report repr_other username analysis trust_score =
     then_do (strs_of (report_parts_of repr_other username analysis trust_score)) (\<lambda>parts.
       let full_report = join_u [10] parts
       in if length full_report > 280 then Inr (truncate_report parts) else Inr full_report)"

definition error_report :: "(pyval \<Rightarrow> ustr) \<Rightarrow> pyval \<Rightarrow> ustr" where
  "error_report repr_other username =
     [128269] @ u '' RUGGUARD: Error analyzing @'' @ py_format repr_other username @
     u ''. Please try again later. #RUGGUARD''"

definition generate_report ::
    "(pyval \<Rightarrow> ustr) \<Rightarrow> pyval \<Rightarrow> pyval \<Rightarrow> ustr \<Rightarrow> py_error + ustr" where
  "generate_report repr_other analysis trust_score user_id =
     (case py_get analysis ''username'' (PStr (u ''unknown'')) of
        Inl e \<Rightarrow> Inl UnboundLocalError
      | Inr username \<Rightarrow>
          (case compose_report repr_other username analysis trust_score of
             Inl e \<Rightarrow> Inr (error_report repr_other username)
           | Inr report \<Rightarrow> Inr report))"

section \<open>Configuration (\<open>Config\<close>)\<close>

record config =
  MIN_TRUSTED_FOLLOWERS :: int
  TRUSTED_ACCOUNTS_UPDATE_INTERVAL :: int
  SUSPICIOUS_FOLLOWER_RATIO :: rat
  MIN_ACCOUNT_AGE_DAYS :: int
  MAX_RECENT_TWEETS :: int

text \<open>The values used when the environment sets none.\<close>

definition default_config :: config where
  "default_config =
     \<lparr>MIN_TRUSTED_FOLLOWERS = 3, TRUSTED_ACCOUNTS_UPDATE_INTERVAL = 3600,
      SUSPICIOUS_FOLLOWER_RATIO = 10, MIN_ACCOUNT_AGE_DAYS = 30, MAX_RECENT_TWEETS = 20\<rparr>"

section \<open>Feature extraction (\<open>AccountAnalyzer\<close>)\<close>







text \<open>The keyword lists of the analyzer.\<close>

definition suspicious_keywords :: "ustr list" where
  "suspicious_keywords =
     [u ''pump'', u ''moon'', u ''lambo'', u ''diamond hands'', u ''hodl'', u ''ape'',
      u ''guaranteed'', u ''returns'', u ''investment opportunity'', u ''exclusive'',
      u ''limited time'', u ''act now'', u ''don'' @ [39] @ u ''t miss out'',
      u ''financial advice'']"

definition positive_keywords :: "ustr list" where
  "positive_keywords =
     [u ''research'', u ''analysis'', u ''education'', u ''community'', u ''development'',
      u ''building'', u ''learning'', u ''discussing'', u ''sharing'', u ''helping'']"

text \<open>
  The link pattern \<open>http[s]?://|www\.|\.[a-z]{2,}\<close>: its last alternative is a dot
  followed by two lower-case ASCII letters.
\<close>

fun dot_letters :: "ustr \<Rightarrow> bool" where
  "dot_letters (a # b # c # cs) =
     ((a = 46 \<and> 97 \<le> b \<and> b \<le> 122 \<and> 97 \<le> c \<and> c \<le> 122) \<or> dot_letters (b # c # cs))"
| "dot_letters _ = False"

definition has_link :: "ustr \<Rightarrow> bool" where
  "has_link s \<longleftrightarrow>
     contains (u ''http://'') s \<or> contains (u ''https://'') s \<or> contains (u ''www.'') s \<or>
     dot_letters s"

text \<open>
  \<open>_analyze_bio\<close>.  \<open>str.lower\<close> follows the Unicode case tables of the runtime and is
  the parameter \<open>lower\<close>.  A bio that is true but not a string has no \<open>lower\<close> method.
\<close>

definition analyze_bio_body :: "(ustr \<Rightarrow> ustr) \<Rightarrow> pyval \<Rightarrow> py_error + pyval" where
  "analyze_bio_body lower bio =
     (if \<not> truthy bio then
        Inr (PDict [(''length'', PInt 0), (''has_bio'', PBool False),
                    (''suspicious_keywords'', PList []), (''positive_keywords'', PList []),
                    (''contains_links'', PBool False), (''risk_level'', PStr (u ''medium''))])
      else
        (case bio of
           PStr s \<Rightarrow>
             (let bio_lower = lower s;
                  found_suspicious = filter (\<lambda>kw. contains kw bio_lower) suspicious_keywords;
                  found_positive = filter (\<lambda>kw. contains kw bio_lower) positive_keywords;
                  contains_links = has_link s;
                  risk_level =
                    (if length found_suspicious > 2 then u ''high''
                     else if length found_suspicious > 0 then u ''medium''
                     else if length found_positive > 0 then u ''low''
                     else u ''low'')
              in Inr (PDict [(''length'', PInt (int (length s))), (''has_bio'', PBool True),
                             (''suspicious_keywords'', PList (map PStr found_suspicious)),
                             (''positive_keywords'', PList (map PStr found_positive)),
                             (''contains_links'', PBool contains_links),
                             (''risk_level'', PStr risk_level),
                             (''text'', PStr (if length s > 100 then take 100 s @ u ''...''
                                              else s))]))
         | _ \<Rightarrow> Inl AttributeError))"

definition analyze_bio :: "(ustr \<Rightarrow> ustr) \<Rightarrow> pyval \<Rightarrow> pyval" where
  "analyze_bio lower bio =
     (case analyze_bio_body lower bio of
        Inl e \<Rightarrow>
          PDict [(''length'', PInt 0), (''has_bio'', PBool False),
                 (''suspicious_keywords'', PList []), (''positive_keywords'', PList []),
                 (''contains_links'', PBool False), (''risk_level'', PStr (u ''high''))]
      | Inr d \<Rightarrow> d)"

text \<open>
  \<open>_analyze_content\<close>.  The branch for a non-empty tweet list calls the sentiment model of
  the TextBlob library; what that branch computes is the parameter \<open>scan_tweets\<close>.  The
  branch for no tweets and the exception handler return the same five entries.
\<close>

definition content_without_tweets :: pyval where
  "content_without_tweets =
     PDict [(''sentiment_score'', PInt 0), (''sentiment_label'', PStr (u ''neutral'')),
            (''topics'', PList []), (''language_distribution'', PDict []),
            (''suspicious_content_count'', PInt 0)]"

definition analyze_content :: "(pyval \<Rightarrow> py_error + pyval) \<Rightarrow> pyval \<Rightarrow> pyval" where
  "analyze_content scan_tweets tweets =
     (if \<not> truthy tweets then content_without_tweets
      else (case scan_tweets tweets of Inl e \<Rightarrow> content_without_tweets | Inr d \<Rightarrow> d))"

text \<open>
  The dictionary \<open>analyze_account\<close> builds from the results of the feature extractors,
  and the assignment \<open>analysis['risk_score'] = self._calculate_risk_score(analysis)\<close>.
\<close>

definition analysis_dict ::
    "pyval \<Rightarrow> pyval \<Rightarrow> pyval \<Rightarrow> pyval \<Rightarrow> pyval \<Rightarrow> pyval \<Rightarrow> pyval \<Rightarrow> pyval \<Rightarrow> pyval \<Rightarrow>
     pyval \<Rightarrow> pyval \<Rightarrow> pyval" where
  "analysis_dict user_id username name account_age follower_following_ratio bio_analysis
       engagement_analysis content_analysis activity_patterns verification_status raw_metrics =
     PDict [(''user_id'', user_id),
            (''username'', username),
            (''name'', name),
            (''account_age'', account_age),
            (''follower_following_ratio'', follower_following_ratio),
            (''bio_analysis'', bio_analysis),
            (''engagement_analysis'', engagement_analysis),
            (''content_analysis'', content_analysis),
            (''activity_patterns'', activity_patterns),
            (''verification_status'', verification_status),
            (''raw_metrics'', raw_metrics),
            (''risk_score'', PInt 0)]"

fun assign_key :: "string \<Rightarrow> pyval \<Rightarrow> (string \<times> pyval) list \<Rightarrow> (string \<times> pyval) list" where
  "assign_key k v [] = [(k, v)]"
| "assign_key k v ((k', v') # d) = (if k' = k then (k, v) # d else (k', v') # assign_key k v d)"

definition with_risk_score :: "pyval \<Rightarrow> py_error + pyval" where
  "with_risk_score analysis =
     (case analysis of
        PDict d \<Rightarrow> Inr (PDict (assign_key ''risk_score'' (calculate_risk_score analysis) d))
      | _ \<Rightarrow> Inl TypeError)"

section \<open>The trusted accounts (\<open>TrustedAccountsManager\<close>)\<close>

text \<open>
  The state of the manager.  A \<open>datetime\<close> is its number of microseconds since a fixed
  origin, so that the difference of two of them is a \<open>timedelta\<close> in microseconds.
\<close>

record trust_manager =
  trusted_accounts :: "ustr set"
  last_update :: "int option"

text \<open>
  \<open>timedelta.seconds\<close>: a \<open>timedelta\<close> is normalised to days, seconds and microseconds with
  \<open>0 \<le> seconds < 86400\<close>; the attribute is that seconds component.
\<close>

definition timedelta_seconds :: "int \<Rightarrow> int" where
  "timedelta_seconds delta = (delta mod 86400000000) div 1000000"

definition list_is_up_to_date :: "config \<Rightarrow> int \<Rightarrow> trust_manager \<Rightarrow> bool" where
  "list_is_up_to_date cfg now st =
     (case last_update st of
        None \<Rightarrow> False
      | Some t \<Rightarrow> timedelta_seconds (now - t) < TRUSTED_ACCOUNTS_UPDATE_INTERVAL cfg)"

text \<open>The user names of a fetched list, one per line.\<close>

definition parse_line :: "(ustr \<Rightarrow> ustr) \<Rightarrow> ustr \<Rightarrow> ustr list" where
  "parse_line lower raw =
     (let line = py_strip raw
      in if line \<noteq> [] \<and> take 1 line \<noteq> [35]
         then (let username = lower (dropWhile (\<lambda>c. c = 64) line)
               in if username \<noteq> [] then [username] else [])
         else [])"

definition parse_trusted_list :: "(ustr \<Rightarrow> ustr) \<Rightarrow> ustr \<Rightarrow> ustr set" where
  "parse_trusted_list lower content = set (concat (map (parse_line lower) (split_on 10 content)))"

text \<open>
  \<open>update_trusted_list\<close>.  \<open>fetch\<close> is the outcome of the HTTP request (the text of the
  response or an exception), \<open>now\<close> the clock at the check and \<open>now'\<close> the clock when the new
  list is stored.  The result pairs the returned flag with the state afterwards.
\<close>

definition update_trusted_list ::
    "config \<Rightarrow> (ustr \<Rightarrow> ustr) \<Rightarrow> py_error + ustr \<Rightarrow> int \<Rightarrow> int \<Rightarrow> trust_manager \<Rightarrow>
     bool \<times> trust_manager" where
  "update_trusted_list cfg lower fetch now now' st =
     (if list_is_up_to_date cfg now st then (True, st)
      else
        (case fetch of
           Inl e \<Rightarrow> (False, st)
         | Inr text \<Rightarrow>
             (let content = py_strip text
              in if content = [] then (False, st)
                 else (True, st\<lparr>trusted_accounts := parse_trusted_list lower content,
                                 last_update := Some now'\<rparr>))))"

text \<open>
  \<open>_get_trusted_followers\<close>: the loop looks each sampled trusted account up and appends
  nothing to \<open>trusted_followers\<close>, whether the lookup (\<open>get_user\<close>) succeeds or raises.
\<close>

definition get_trusted_followers :: "(ustr \<Rightarrow> py_error + pyval) \<Rightarrow> ustr list \<Rightarrow> ustr list" where
  "get_trusted_followers get_user trusted_list =
     foldl (\<lambda>trusted_followers trusted_username.
              (case get_user trusted_username of
                 Inl e \<Rightarrow> trusted_followers
               | Inr trusted_user \<Rightarrow> trusted_followers))
           [] (take 20 trusted_list)"

definition default_trust_score :: pyval where
  "default_trust_score =
     PDict [(''is_trusted'', PBool False), (''trust_level'', PStr (u ''unknown'')),
            (''trusted_followers'', PList []), (''trusted_followers_count'', PInt 0),
            (''vouched_by_trusted'', PBool False),
            (''explanation'', PStr (u ''Unable to verify trust status''))]"

text \<open>The trust level decided from the trusted followers that were found.\<close>

definition trust_decision :: "config \<Rightarrow> ustr list \<Rightarrow> pyval" where
  "trust_decision cfg trusted_followers =
     (let trusted_count = int (length trusted_followers);
          (trust_level, is_trusted, explanation) =
            (if trusted_count \<ge> MIN_TRUSTED_FOLLOWERS cfg then
               (u ''vouched_by_trusted'', True,
                u ''Followed by '' @ str_int trusted_count @ u '' trusted accounts: '' @
                join_u (u '', '') (take 3 trusted_followers) @
                (if trusted_count > 3
                 then u '' and '' @ str_int (trusted_count - 3) @ u '' others'' else []))
             else if trusted_count > 0 then
               (u ''partially_vouched'', False,
                u ''Followed by '' @ str_int trusted_count @ u '' trusted account(s) (minimum '' @
                str_int (MIN_TRUSTED_FOLLOWERS cfg) @ u '' required)'')
             else
               (u ''not_vouched'', False, u ''Not followed by any trusted accounts''))
      in PDict [(''is_trusted'', PBool is_trusted),
                (''trust_level'', PStr trust_level),
                (''trusted_followers'', PList (map PStr trusted_followers)),
                (''trusted_followers_count'', PInt trusted_count),
                (''vouched_by_trusted'', PBool is_trusted),
                (''explanation'', PStr explanation)])"

text \<open>
  \<open>check_trust_score\<close>.  \<open>user_info\<close> is what \<open>XMonitor.get_user_info\<close> returned (a
  dictionary or \<open>None\<close>) and \<open>trusted_list\<close> the trusted set in the order \<open>list\<close>
  enumerates it.
\<close>

definition check_trust_score_body ::
    "config \<Rightarrow> (ustr \<Rightarrow> ustr) \<Rightarrow> (ustr \<Rightarrow> py_error + pyval) \<Rightarrow> ustr list \<Rightarrow> trust_manager \<Rightarrow>
     pyval \<Rightarrow> py_error + pyval" where
  "check_trust_score_body cfg lower get_user trusted_list st user_info =
     (if \<not> truthy user_info then Inr default_trust_score
      else
        then_do (py_getitem user_info ''username'') (\<lambda>name.
          (case name of
             PStr s \<Rightarrow>
               (let username = lower s
                in if username \<in> trusted_accounts st then
                     Inr (PDict [(''is_trusted'', PBool True),
                                 (''trust_level'', PStr (u ''directly_trusted'')),
                                 (''trusted_followers'', PList []),
                                 (''trusted_followers_count'', PInt 0),
                                 (''vouched_by_trusted'', PBool True),
                                 (''explanation'',
                                  PStr (u ''@'' @ username @
                                        u '' is directly on the trusted accounts list''))])
                   else Inr (trust_decision cfg (get_trusted_followers get_user trusted_list)))
           | _ \<Rightarrow> Inl AttributeError)))"

definition check_trust_score ::
    "config \<Rightarrow> (ustr \<Rightarrow> ustr) \<Rightarrow> (ustr \<Rightarrow> py_error + pyval) \<Rightarrow> ustr list \<Rightarrow> trust_manager \<Rightarrow>
     pyval \<Rightarrow> pyval" where
  "check_trust_score cfg lower get_user trusted_list st user_info =
     (case check_trust_score_body cfg lower get_user trusted_list st user_info of
        Inl e \<Rightarrow> default_trust_score
      | Inr d \<Rightarrow> d)"

section \<open>Notions used to state the properties\<close>

text \<open>
  A risk score is acceptable when it is a number between 0 and 100 with at most one
  decimal digit.
\<close>

definition score_ok :: "pyval \<Rightarrow> bool" where
  "score_ok v =
     (case num_of v of
        None \<Rightarrow> False
      | Some q \<Rightarrow> 0 \<le> q \<and> q \<le> 100 \<and> of_int \<lfloor>q * 10\<rfloor> = q * 10)"

text \<open>The numeric value of a score (0 for a value that is not a number).\<close>

definition score_value :: "pyval \<Rightarrow> rat" where
  "score_value v = (case num_of v of None \<Rightarrow> 0 | Some q \<Rightarrow> q)"





text \<open>A young, verified account with a quarter of its tweets suspicious.\<close>

definition sample_fields :: "(string \<times> pyval) list" where
  "sample_fields =
     [(''account_age'', PDict [(''days'', PInt 12), (''is_new'', PBool True)]),
      (''follower_following_ratio'', PDict [(''is_suspicious'', PBool False)]),
      (''bio_analysis'', PDict [(''risk_level'', PStr (u ''medium''))]),
      (''engagement_analysis'', PDict [(''pattern'', PStr (u ''low_engagement''))]),
      (''content_analysis'', PDict [(''suspicious_content_ratio'', PFloat (1 / 4))]),
      (''activity_patterns'', PDict [(''consistent_activity'', PBool False)]),
      (''verification_status'', PBool True)]"


text \<open>
  The analysis whose other entries are \<open>d\<close> (and whose other content entries are
  \<open>content\<close>) with a given suspicious-content ratio, and with a given verification flag.
\<close>

definition set_suspicious_ratio ::
    "rat \<Rightarrow> (string \<times> pyval) list \<Rightarrow> (string \<times> pyval) list \<Rightarrow> pyval" where
  "set_suspicious_ratio r content d =
     PDict (assign_key ''content_analysis''
              (PDict (assign_key ''suspicious_content_ratio'' (PFloat r) content)) d)"

definition set_verification :: "bool \<Rightarrow> (string \<times> pyval) list \<Rightarrow> pyval" where
  "set_verification b d = PDict (assign_key ''verification_status'' (PBool b) d)"

text \<open>Order on numbers, lifted to results: two failures are related, since both give
  the default score.\<close>

definition num_le :: "pyval \<Rightarrow> pyval \<Rightarrow> bool" where
  "num_le a b = (case (num_of a, num_of b) of (Some x, Some y) \<Rightarrow> x \<le> y | _ \<Rightarrow> False)"

definition res_le :: "py_error + pyval \<Rightarrow> py_error + pyval \<Rightarrow> bool" where
  "res_le m1 m2 =
     (case (m1, m2) of
        (Inl e1, Inl e2) \<Rightarrow> True
      | (Inr v1, Inr v2) \<Rightarrow> num_le v1 v2
      | _ \<Rightarrow> False)"

text \<open>The steps of the score before the verification step.\<close>

definition six_factors :: "pyval \<Rightarrow> py_error + pyval" where
  "six_factors a =
     then_do (age_factor a (PInt 0)) (\<lambda>r1.
     then_do (ratio_factor a r1) (\<lambda>r2.
     then_do (bio_factor a r2) (\<lambda>r3.
     then_do (content_factor a r3) (\<lambda>r4.
     then_do (engagement_factor a r4) (\<lambda>r5. activity_factor a r5)))))"




text \<open>
  A handle of 217 characters, and a trust score that is trusted with a level that is
  neither \<open>directly_trusted\<close> nor \<open>network_backed\<close>.
\<close>

definition long_handle :: ustr where
  "long_handle = replicate 217 97"

definition unlisted_level_score :: pyval where
  "unlisted_level_score =
     PDict [(''is_trusted'', PBool True), (''trust_level'', PStr (u ''vouched_by_trusted''))]"

section \<open>Properties\<close>

subsection \<open>Exceptions and rounding\<close>

lemma then_do_Inr: "then_do m f = Inr v \<longleftrightarrow> (\<exists>x. m = Inr x \<and> f x = Inr v)"
  by (cases m) (auto simp: then_do_def)

lemma then_do_simps [simp]: "then_do (Inl e) f = Inl e" "then_do (Inr x) f = f x"
  by (simp_all add: then_do_def)

lemma rhe_bounds:
  "of_int a \<le> x \<Longrightarrow> x \<le> of_int b \<Longrightarrow> a \<le> round_half_even x \<and> round_half_even x \<le> b"
  unfolding round_half_even_def Let_def
  by (auto simp: le_floor_iff floor_le_iff) linarith+

lemma rhe_of_int [simp]: "round_half_even (of_int k) = k"
  by (simp add: round_half_even_def)

lemma rhe_numeral [simp]: "round_half_even (numeral n) = numeral n" "round_half_even 0 = 0"
  using rhe_of_int[of "numeral n"] rhe_of_int[of 0] by simp_all

lemma rhe_of_int_times [simp]: "round_half_even (of_int k * 10) = k * 10"
  using rhe_of_int[of "k * 10"] by simp

lemma rhe_mono:
  assumes xy: "x \<le> y"
  shows "round_half_even x \<le> round_half_even y"
proof (cases "\<lfloor>x\<rfloor> = \<lfloor>y\<rfloor>")
  case True
  then show ?thesis using xy unfolding round_half_even_def Let_def by auto
next
  case False
  moreover have "\<lfloor>x\<rfloor> \<le> \<lfloor>y\<rfloor>" using xy by (rule floor_mono)
  ultimately have "\<lfloor>x\<rfloor> + 1 \<le> \<lfloor>y\<rfloor>" by linarith
  moreover have "round_half_even x \<le> \<lfloor>x\<rfloor> + 1"
    unfolding round_half_even_def Let_def by auto
  moreover have "\<lfloor>y\<rfloor> \<le> round_half_even y"
    unfolding round_half_even_def Let_def by auto
  ultimately show ?thesis by linarith
qed

subsection \<open>The range of the risk score\<close>

lemma score_ok_int: "0 \<le> i \<Longrightarrow> i \<le> 100 \<Longrightarrow> score_ok (PInt i)"
  by (simp add: score_ok_def)

lemma round1_ok:
  "0 \<le> q \<Longrightarrow> q \<le> 100 \<Longrightarrow> score_ok (PFloat (of_int (round_half_even (q * 10)) / 10))"
  using rhe_bounds[of 0 "q * 10" 1000] by (simp add: score_ok_def)

lemma clamp_round_ok: "clamp_round r = Inr v \<Longrightarrow> score_ok v"
  unfolding clamp_round_def py_min_def py_max_def py_lt_def py_gt_def py_round_def then_do_Inr
  by (cases r) (auto simp: round1_ok score_ok_int split: if_splits option.splits pyval.splits)

lemma risk_body_ok: "risk_score_body a = Inr v \<Longrightarrow> score_ok v"
  unfolding risk_score_body_def then_do_Inr by (blast intro: clamp_round_ok)

text \<open>
  Claim C2.  For every analysis value, \<open>_calculate_risk_score\<close> returns a number in
  \<open>[0, 100]\<close> with one decimal digit; and whenever a lookup or an arithmetic step of its
  \<open>try\<close> block raises, it returns exactly \<open>50.0\<close>.
\<close>

theorem risk_score_in_range:
  "score_ok (calculate_risk_score analysis) \<and>
   (\<forall>e. risk_score_body analysis = Inl e \<longrightarrow> calculate_risk_score analysis = PFloat 50)"
proof (cases "risk_score_body analysis")
  case (Inl e)
  then show ?thesis by (simp add: calculate_risk_score_def score_ok_def)
next
  case (Inr v)
  then show ?thesis using risk_body_ok[OF Inr] by (simp add: calculate_risk_score_def)
qed

theorem risk_score_in_range_witness:
  "risk_score_body (PDict []) = Inl KeyError \<and>
   score_ok (calculate_risk_score (PDict [])) \<and>
   calculate_risk_score (PDict []) = PFloat 50 \<and>
   risk_score_body (PDict ((''content_analysis'',
       PDict [(''suspicious_content_ratio'', PNone)]) # sample_fields)) = Inl TypeError \<and>
   calculate_risk_score (PDict ((''content_analysis'',
       PDict [(''suspicious_content_ratio'', PNone)]) # sample_fields)) = PFloat 50"
proof -
  have h: "risk_score_body (PDict []) = Inl KeyError"
    by (simp add: risk_score_body_def age_factor_def)
  have k: "risk_score_body (PDict ((''content_analysis'',
       PDict [(''suspicious_content_ratio'', PNone)]) # sample_fields)) = Inl TypeError"
    by (simp add: risk_score_body_def age_factor_def ratio_factor_def bio_factor_def
        content_factor_def sample_fields_def py_add_def py_mul_def u_def)
  show ?thesis
    using h k risk_score_in_range[of "PDict []"]
      risk_score_in_range[of "PDict ((''content_analysis'',
       PDict [(''suspicious_content_ratio'', PNone)]) # sample_fields)"]
    by auto
qed

subsection \<open>The additive rule\<close>


lemma clamp_round_value:
  assumes "num_of v = Some q"
  shows "\<exists>w. clamp_round v = Inr w \<and>
     num_of w = Some (of_int (round_half_even (max 0 (min 100 q) * 10)) / 10)"
  using assms
  by (cases v) (auto simp: clamp_round_def py_min_def py_max_def py_lt_def py_gt_def py_round_def
       max_def min_def split: if_splits)

lemma py_add_num:
  "num_of a = Some x \<Longrightarrow> num_of b = Some y \<Longrightarrow> \<exists>w. py_add a b = Inr w \<and> num_of w = Some (x + y)"
  by (cases a; cases b) (auto simp: py_add_def)

lemma py_sub_num:
  "num_of a = Some x \<Longrightarrow> num_of b = Some y \<Longrightarrow> \<exists>w. py_sub a b = Inr w \<and> num_of w = Some (x - y)"
  by (cases a; cases b) (auto simp: py_sub_def)

lemma py_mul_num:
  "num_of a = Some x \<Longrightarrow> num_of b = Some y \<Longrightarrow> \<exists>w. py_mul a b = Inr w \<and> num_of w = Some (x * y)"
  by (cases a; cases b) (auto simp: py_mul_def)

lemma u_inj [simp]: "u s = u t \<longleftrightarrow> s = t"
  by (simp add: u_def inj_map_eq_map[OF inj_of_char])










subsection \<open>Monotonicity of the risk score\<close>

lemma map_of_assign_key [simp]:
  "map_of (assign_key k v d) k' = (if k' = k then Some v else map_of d k')"
  by (induction d) auto

lemma num_le_iff: "num_le a b \<longleftrightarrow> (\<exists>x y. num_of a = Some x \<and> num_of b = Some y \<and> x \<le> y)"
  by (auto simp: num_le_def split: option.splits)

lemma res_le_simps [simp]:
  "res_le (Inl e1) (Inl e2)" "res_le (Inr v1) (Inr v2) = num_le v1 v2"
  "\<not> res_le (Inl e) (Inr v)" "\<not> res_le (Inr v) (Inl e)"
  by (simp_all add: res_le_def)

lemma res_le_then_do:
  assumes "res_le m1 m2" "\<And>v1 v2. num_le v1 v2 \<Longrightarrow> res_le (f1 v1) (f2 v2)"
  shows "res_le (then_do m1 f1) (then_do m2 f2)"
  using assms by (cases m1; cases m2) auto

lemma py_add_mono:
  assumes "num_le a b" "num_le c d"
  shows "res_le (py_add a c) (py_add b d)"
proof -
  from assms obtain x y z w where n: "num_of a = Some x" "num_of b = Some y" "x \<le> y"
    "num_of c = Some z" "num_of d = Some w" "z \<le> w" by (auto simp: num_le_iff)
  from py_add_num[OF n(1) n(4)] py_add_num[OF n(2) n(5)] n(3) n(6)
  show ?thesis by (auto simp: num_le_iff)
qed

lemma py_sub_mono:
  assumes "num_le a b" "num_of c = Some z"
  shows "res_le (py_sub a c) (py_sub b c)"
proof -
  from assms obtain x y where n: "num_of a = Some x" "num_of b = Some y" "x \<le> y"
    by (auto simp: num_le_iff)
  from py_sub_num[OF n(1) assms(2)] py_sub_num[OF n(2) assms(2)] n(3)
  show ?thesis by (auto simp: num_le_iff)
qed

lemma num_le_int [simp]: "num_le (PInt i) (PInt j) \<longleftrightarrow> i \<le> j"
  by (simp add: num_le_def)

lemma num_le_refl_num: "num_of c = Some z \<Longrightarrow> num_le c c"
  by (simp add: num_le_def)

lemma age_factor_mono: "num_le r1 r2 \<Longrightarrow> res_le (age_factor a r1) (age_factor a r2)"
  by (auto simp: age_factor_def then_do_def intro!: py_add_mono split: sum.splits)

lemma ratio_factor_mono: "num_le r1 r2 \<Longrightarrow> res_le (ratio_factor a r1) (ratio_factor a r2)"
  by (auto simp: ratio_factor_def then_do_def intro!: py_add_mono split: sum.splits)

lemma bio_factor_mono: "num_le r1 r2 \<Longrightarrow> res_le (bio_factor a r1) (bio_factor a r2)"
  by (auto simp: bio_factor_def then_do_def intro!: py_add_mono split: sum.splits)

lemma engagement_factor_mono:
  "num_le r1 r2 \<Longrightarrow> res_le (engagement_factor a r1) (engagement_factor a r2)"
  by (auto simp: engagement_factor_def then_do_def intro!: py_add_mono py_sub_mono
      split: sum.splits)

lemma activity_factor_mono:
  "num_le r1 r2 \<Longrightarrow> res_le (activity_factor a r1) (activity_factor a r2)"
  by (auto simp: activity_factor_def then_do_def intro!: py_add_mono split: sum.splits)

lemma verification_factor_mono:
  "num_le r1 r2 \<Longrightarrow> res_le (verification_factor a r1) (verification_factor a r2)"
  by (auto simp: verification_factor_def then_do_def intro!: py_sub_mono split: sum.splits)

lemma clamp_round_mono:
  assumes "num_le v1 v2"
  shows "res_le (clamp_round v1) (clamp_round v2)"
proof -
  from assms obtain x y where n: "num_of v1 = Some x" "num_of v2 = Some y" "x \<le> y"
    by (auto simp: num_le_iff)
  have "round_half_even (max 0 (min 100 x) * 10) \<le> round_half_even (max 0 (min 100 y) * 10)"
    using n(3) by (intro rhe_mono) auto
  then have le: "(of_int (round_half_even (max 0 (min 100 x) * 10)) :: rat) / 10
               \<le> of_int (round_half_even (max 0 (min 100 y) * 10)) / 10"
    by simp
  from clamp_round_value[OF n(1)] obtain w where
    w: "clamp_round v1 = Inr w"
       "num_of w = Some (of_int (round_half_even (max 0 (min 100 x) * 10)) / 10)" by blast
  from clamp_round_value[OF n(2)] obtain w' where
    w': "clamp_round v2 = Inr w'"
        "num_of w' = Some (of_int (round_half_even (max 0 (min 100 y) * 10)) / 10)" by blast
  show ?thesis using le by (simp add: w w' num_le_def)
qed

lemma tail_mono:
  assumes "num_le r4 r4'"
  shows "res_le
     (then_do (engagement_factor a r4) (\<lambda>r5.
      then_do (activity_factor a r5) (\<lambda>r6.
      then_do (verification_factor a r6) (\<lambda>r7. clamp_round r7))))
     (then_do (engagement_factor a r4') (\<lambda>r5.
      then_do (activity_factor a r5) (\<lambda>r6.
      then_do (verification_factor a r6) (\<lambda>r7. clamp_round r7))))"
  by (intro res_le_then_do engagement_factor_mono activity_factor_mono verification_factor_mono
      clamp_round_mono assms)


lemma getitem_set_ratio [simp]:
  "k \<noteq> ''content_analysis'' \<Longrightarrow>
   py_getitem (set_suspicious_ratio r c d) k = py_getitem (PDict d) k"
  by (simp add: set_suspicious_ratio_def)

lemma content_factor_set_ratio:
  "content_factor (set_suspicious_ratio r c d) rs = py_add rs (PFloat (r * 15))"
  by (simp add: content_factor_def set_suspicious_ratio_def py_mul_def)

lemma head_set_ratio:
  "then_do (age_factor (set_suspicious_ratio r c d) (PInt 0)) (\<lambda>r1.
   then_do (ratio_factor (set_suspicious_ratio r c d) r1) (\<lambda>r2.
     bio_factor (set_suspicious_ratio r c d) r2))
   = then_do (age_factor (PDict d) (PInt 0)) (\<lambda>r1.
     then_do (ratio_factor (PDict d) r1) (\<lambda>r2. bio_factor (PDict d) r2))"
  by (simp add: age_factor_def ratio_factor_def bio_factor_def)

lemma then_do_assoc: "then_do (then_do m f) g = then_do m (\<lambda>x. then_do (f x) g)"
  by (cases m) simp_all

lemma head_numeric:
  "then_do (age_factor a (PInt 0)) (\<lambda>r1. then_do (ratio_factor a r1) (\<lambda>r2. bio_factor a r2)) = Inr r3
   \<Longrightarrow> num_le r3 r3"
proof -
  have "res_le (then_do (age_factor a (PInt 0)) (\<lambda>r1. then_do (ratio_factor a r1) (\<lambda>r2. bio_factor a r2)))
               (then_do (age_factor a (PInt 0)) (\<lambda>r1. then_do (ratio_factor a r1) (\<lambda>r2. bio_factor a r2)))"
    by (intro res_le_then_do age_factor_mono ratio_factor_mono bio_factor_mono) simp
  moreover assume "then_do (age_factor a (PInt 0)) (\<lambda>r1. then_do (ratio_factor a r1) (\<lambda>r2. bio_factor a r2)) = Inr r3"
  ultimately show ?thesis by simp
qed

lemma body_split:
  "risk_score_body a =
     then_do (then_do (age_factor a (PInt 0)) (\<lambda>r1. then_do (ratio_factor a r1) (\<lambda>r2. bio_factor a r2)))
       (\<lambda>r3. then_do (content_factor a r3) (\<lambda>r4.
          then_do (engagement_factor a r4) (\<lambda>r5.
          then_do (activity_factor a r5) (\<lambda>r6.
          then_do (verification_factor a r6) (\<lambda>r7. clamp_round r7)))))"
  by (simp add: risk_score_body_def then_do_assoc)

lemma score_value_res_le:
  assumes "res_le (risk_score_body a) (risk_score_body b)"
  shows "score_value (calculate_risk_score a) \<le> score_value (calculate_risk_score b)"
  using assms
  by (cases "risk_score_body a"; cases "risk_score_body b")
     (auto simp: calculate_risk_score_def score_value_def num_le_iff)

lemma tail_set_ratio:
  "engagement_factor (set_suspicious_ratio r c d) = engagement_factor (PDict d)"
  "activity_factor (set_suspicious_ratio r c d) = activity_factor (PDict d)"
  "verification_factor (set_suspicious_ratio r c d) = verification_factor (PDict d)"
  by (simp_all add: fun_eq_iff engagement_factor_def activity_factor_def verification_factor_def)

lemma ratio_mono:
  assumes "r1 \<le> r2"
  shows "res_le (risk_score_body (set_suspicious_ratio r1 c d))
                (risk_score_body (set_suspicious_ratio r2 c d))"
proof (cases "then_do (age_factor (PDict d) (PInt 0)) (\<lambda>r1.
     then_do (ratio_factor (PDict d) r1) (\<lambda>r2. bio_factor (PDict d) r2))")
  case (Inl e)
  then show ?thesis by (simp add: body_split head_set_ratio)
next
  case (Inr r3)
  have "num_le r3 r3" by (rule head_numeric[OF Inr])
  moreover have "num_le (PFloat (r1 * 15)) (PFloat (r2 * 15))"
    using assms by (simp add: num_le_def)
  ultimately have "res_le (py_add r3 (PFloat (r1 * 15))) (py_add r3 (PFloat (r2 * 15)))"
    by (rule py_add_mono)
  then show ?thesis
    unfolding body_split head_set_ratio Inr then_do_simps content_factor_set_ratio tail_set_ratio
    by (rule res_le_then_do) (rule tail_mono)
qed

lemma six_set_verification:
  "age_factor (set_verification b d) = age_factor (PDict d)"
  "ratio_factor (set_verification b d) = ratio_factor (PDict d)"
  "bio_factor (set_verification b d) = bio_factor (PDict d)"
  "content_factor (set_verification b d) = content_factor (PDict d)"
  "engagement_factor (set_verification b d) = engagement_factor (PDict d)"
  "activity_factor (set_verification b d) = activity_factor (PDict d)"
  by (simp_all add: fun_eq_iff set_verification_def age_factor_def ratio_factor_def bio_factor_def
      content_factor_def engagement_factor_def activity_factor_def)

lemma verification_factor_set:
  "verification_factor (set_verification b d) rs = (if b then py_sub rs (PInt 15) else Inr rs)"
  by (simp add: verification_factor_def set_verification_def)

lemma content_factor_numeric:
  assumes "num_le r3 r3'" "content_factor a r3 = Inr r4"
  shows "num_le r4 r4"
proof -
  from assms(1) obtain q where q: "num_of r3 = Some q" by (auto simp: num_le_iff)
  from assms(2) obtain p where p: "py_add r3 p = Inr r4"
    by (auto simp: content_factor_def then_do_Inr)
  from q p show ?thesis
    by (cases r3; cases p) (auto simp: py_add_def num_le_def split: if_splits)
qed

lemma six_factors_numeric:
  assumes "six_factors a = Inr r6"
  shows "\<exists>q. num_of r6 = Some q"
proof -
  from assms obtain r1 r2 r3 r4 r5 where s:
    "age_factor a (PInt 0) = Inr r1" "ratio_factor a r1 = Inr r2" "bio_factor a r2 = Inr r3"
    "content_factor a r3 = Inr r4" "engagement_factor a r4 = Inr r5" "activity_factor a r5 = Inr r6"
    by (auto simp: six_factors_def then_do_Inr)
  have "num_le r1 r1" using age_factor_mono[of "PInt 0" "PInt 0" a] s(1) by simp
  then have "num_le r2 r2" using ratio_factor_mono[of r1 r1 a] s(2) by simp
  then have "num_le r3 r3" using bio_factor_mono[of r2 r2 a] s(3) by simp
  then have "num_le r4 r4" using content_factor_numeric[OF _ s(4)] by simp
  then have "num_le r5 r5" using engagement_factor_mono[of r4 r4 a] s(5) by simp
  then have "num_le r6 r6" using activity_factor_mono[of r5 r5 a] s(6) by simp
  then show ?thesis by (auto simp: num_le_iff)
qed

lemma body_six:
  "risk_score_body a =
     then_do (six_factors a) (\<lambda>r6. then_do (verification_factor a r6) (\<lambda>r7. clamp_round r7))"
  by (simp add: risk_score_body_def six_factors_def then_do_assoc)

lemma six_factors_set_verification: "six_factors (set_verification b d) = six_factors (PDict d)"
  by (simp add: six_factors_def six_set_verification)

lemma verified_mono:
  "res_le (risk_score_body (set_verification True d)) (risk_score_body (set_verification False d))"
proof (cases "six_factors (PDict d)")
  case (Inl e)
  then show ?thesis by (simp add: body_six six_factors_set_verification)
next
  case (Inr r6)
  from six_factors_numeric[OF Inr] obtain q where q: "num_of r6 = Some q" by blast
  from py_sub_num[OF q, of "PInt 15" 15] obtain w where
    w: "py_sub r6 (PInt 15) = Inr w" "num_of w = Some (q - 15)" by auto
  have "num_le w r6" using q w(2) by (simp add: num_le_def)
  then have "res_le (clamp_round w) (clamp_round r6)" by (rule clamp_round_mono)
  then show ?thesis
    by (simp add: body_six six_factors_set_verification Inr verification_factor_set w)
qed

text \<open>
  Claim C7.  With every other entry of the analysis fixed, the risk score does not
  decrease when the suspicious-content ratio grows (in particular from 0.0 to 1.0), and
  the score of a verified account is never above the score of the same account
  unverified.
\<close>

theorem risk_score_monotone:
  "(\<forall>r1 r2. r1 \<le> r2 \<longrightarrow>
      score_value (calculate_risk_score (set_suspicious_ratio r1 content d))
        \<le> score_value (calculate_risk_score (set_suspicious_ratio r2 content d))) \<and>
   score_value (calculate_risk_score (set_verification True d))
     \<le> score_value (calculate_risk_score (set_verification False d))"
  using ratio_mono verified_mono by (blast intro: score_value_res_le)

theorem risk_score_monotone_witness:
  "(0 :: rat) \<le> 1 \<and>
   score_value (calculate_risk_score (set_suspicious_ratio 0 [] sample_fields))
     \<le> score_value (calculate_risk_score (set_suspicious_ratio 1 [] sample_fields)) \<and>
   score_value (calculate_risk_score (set_verification True sample_fields))
     \<le> score_value (calculate_risk_score (set_verification False sample_fields))"
  using risk_score_monotone[of "[]" sample_fields] by simp

subsection \<open>The follower ratio\<close>








subsection \<open>Degraded inputs of the risk score\<close>

lemma content_factor_no_tweets:
  "content_factor
     (analysis_dict user_id username name account_age follower_following_ratio bio_analysis
        engagement_analysis (analyze_content scan_tweets (PList [])) activity_patterns
        verification_status raw_metrics) rs = Inl KeyError"
  by (simp add: content_factor_def analysis_dict_def analyze_content_def content_without_tweets_def)

text \<open>
  Claim C9.  When the tweet list is empty, \<open>_analyze_content\<close> returns a dictionary
  without the key \<open>suspicious_content_ratio\<close>, the lookup in \<open>_calculate_risk_score\<close>
  raises, and the risk score stored in the analysis is exactly \<open>50.0\<close>, whatever the
  account age, the follower ratio, the bio analysis and the verification flag are.
\<close>

theorem no_tweets_default_score:
  "calculate_risk_score
     (analysis_dict user_id username name account_age follower_following_ratio bio_analysis
        engagement_analysis (analyze_content scan_tweets (PList [])) activity_patterns
        verification_status raw_metrics) = PFloat 50 \<and>
   then_do (with_risk_score
     (analysis_dict user_id username name account_age follower_following_ratio bio_analysis
        engagement_analysis (analyze_content scan_tweets (PList [])) activity_patterns
        verification_status raw_metrics)) (\<lambda>analysis. py_getitem analysis ''risk_score'')
     = Inr (PFloat 50)"
proof -
  let ?a = "analysis_dict user_id username name account_age follower_following_ratio bio_analysis
        engagement_analysis (analyze_content scan_tweets (PList [])) activity_patterns
        verification_status raw_metrics"
  have "risk_score_body ?a \<noteq> Inr v" for v
    by (auto simp: risk_score_body_def then_do_Inr content_factor_no_tweets)
  then obtain e where "risk_score_body ?a = Inl e"
    by (cases "risk_score_body ?a") auto
  then have s: "calculate_risk_score ?a = PFloat 50"
    by (simp add: calculate_risk_score_def)
  show ?thesis
    unfolding s with_risk_score_def
    by (simp add: analysis_dict_def s[unfolded analysis_dict_def])
qed

text \<open>
  Claim C10.  \<open>_analyze_bio\<close> answers an empty or absent bio with risk level \<open>medium\<close> and
  an exception inside the analysis with risk level \<open>high\<close>; in the risk score the first
  adds 10 and the second adds 20.
\<close>

theorem bio_fallback_levels:
  "(\<not> truthy bio \<longrightarrow>
      py_getitem (analyze_bio lower bio) ''risk_level'' = Inr (PStr (u ''medium'')) \<and>
      bio_factor (PDict ((''bio_analysis'', analyze_bio lower bio) # rest)) risk_score
        = py_add risk_score (PInt 10)) \<and>
   (\<forall>e. analyze_bio_body lower bio = Inl e \<longrightarrow>
      py_getitem (analyze_bio lower bio) ''risk_level'' = Inr (PStr (u ''high'')) \<and>
      bio_factor (PDict ((''bio_analysis'', analyze_bio lower bio) # rest)) risk_score
        = py_add risk_score (PInt 20))"
  by (auto simp: analyze_bio_def analyze_bio_body_def bio_factor_def)

theorem bio_fallback_levels_witness:
  "\<not> truthy (PStr []) \<and>
   py_getitem (analyze_bio id (PStr [])) ''risk_level'' = Inr (PStr (u ''medium'')) \<and>
   bio_factor (PDict [(''bio_analysis'', analyze_bio id (PStr []))]) (PInt 25) = Inr (PInt 35) \<and>
   analyze_bio_body id (PInt 7) = Inl AttributeError \<and>
   py_getitem (analyze_bio id (PInt 7)) ''risk_level'' = Inr (PStr (u ''high'')) \<and>
   bio_factor (PDict [(''bio_analysis'', analyze_bio id (PInt 7))]) (PInt 25) = Inr (PInt 45)"
proof -
  have a: "\<not> truthy (PStr [])" by simp
  have b: "analyze_bio_body id (PInt 7) = Inl AttributeError" by (simp add: analyze_bio_body_def)
  have c: "py_add (PInt 25) (PInt 10) = Inr (PInt 35)" "py_add (PInt 25) (PInt 20) = Inr (PInt 45)"
    by (simp_all add: py_add_def)
  show ?thesis
    using a b c bio_fallback_levels[of "PStr []" id "[]" "PInt 25"]
      bio_fallback_levels[of "PInt 7" id "[]" "PInt 25"]
    by simp
qed

subsection \<open>The report generator\<close>

text \<open>
  Claim C1.  The claim is that every report has at most 280 characters.  The text
  returned by the exception handler of \<open>generate_report\<close> is not truncated: for a handle
  of 217 characters and a trust score whose status line is \<open>None\<close>, the handler returns
  281 characters.
\<close>

theorem report_fallback_over_limit:
  "generate_report repr_other (PDict [(''username'', PStr long_handle)]) unlisted_level_score user_id
     = Inr (error_report repr_other (PStr long_handle)) \<and>
   length (error_report repr_other (PStr long_handle)) = 281"
  by (simp add: generate_report_def compose_report_def report_parts_of_def
      generate_trust_status_def generate_trust_status_body_def unlisted_level_score_def
      error_report_def long_handle_def u_def)

text \<open>
  Claim C4.  The claim is that \<open>generate_report\<close> never raises.  When the analysis is
  \<open>None\<close>, the first statement of the \<open>try\<close> block raises before \<open>username\<close> is bound, and
  the handler, which formats \<open>username\<close>, raises \<open>UnboundLocalError\<close> out of the function.
\<close>

theorem report_raises_without_analysis:
  "generate_report repr_other PNone trust_score user_id = Inl UnboundLocalError"
  by (simp add: generate_report_def)

subsection \<open>The trusted accounts\<close>

lemma get_trusted_followers_empty: "get_trusted_followers get_user trusted_list = []"
proof -
  have "foldl (\<lambda>acc n. case get_user n of Inl e \<Rightarrow> acc | Inr x \<Rightarrow> acc) acc xs = acc" for acc :: "ustr list" and xs
    by (induction xs arbitrary: acc) (auto split: sum.splits)
  then show ?thesis by (simp add: get_trusted_followers_def)
qed

text \<open>
  Claim C3.  The claim is that an account followed by at least \<open>MIN_TRUSTED_FOLLOWERS\<close>
  trusted accounts gets the level \<open>network_backed\<close>.  With three trusted followers and the
  default threshold the level is \<open>vouched_by_trusted\<close>, a level for which the report
  generator has no status line; \<open>check_trust_score\<close> returns that level whenever the
  threshold is not positive.
\<close>

theorem three_vouchers_label:
  "py_getitem (trust_decision default_config [a, b, c]) ''trust_level''
     = Inr (PStr (u ''vouched_by_trusted'')) \<and>
   py_getitem (trust_decision default_config [a, b, c]) ''is_trusted'' = Inr (PBool True) \<and>
   u ''vouched_by_trusted'' \<noteq> u ''network_backed'' \<and>
   generate_trust_status repr_other (trust_decision default_config [a, b, c]) = PNone \<and>
   py_getitem
     (check_trust_score (default_config\<lparr>MIN_TRUSTED_FOLLOWERS := 0\<rparr>) lower get_user trusted_list
        \<lparr>trusted_accounts = {}, last_update = None\<rparr> (PDict [(''username'', PStr name)]))
     ''trust_level'' = Inr (PStr (u ''vouched_by_trusted''))"
  by (simp add: trust_decision_def default_config_def Let_def generate_trust_status_def
      generate_trust_status_body_def check_trust_score_def check_trust_score_body_def
      get_trusted_followers_empty)

text \<open>
  Claim C6.  The claim is that the list is reloaded whenever at least
  \<open>TRUSTED_ACCOUNTS_UPDATE_INTERVAL\<close> seconds have passed.  One day and ten seconds after
  the last refresh, \<open>timedelta.seconds\<close> is 10 and \<open>update_trusted_list\<close> returns \<open>True\<close>
  without reloading, whatever the request would have fetched.
\<close>

theorem refresh_skipped_after_full_day:
  "timedelta_seconds 86410000000 = 10 \<and>
   update_trusted_list default_config lower fetch (t + 86410000000) now'
       \<lparr>trusted_accounts = accounts, last_update = Some t\<rparr>
     = (True, \<lparr>trusted_accounts = accounts, last_update = Some t\<rparr>)"
  by (simp add: update_trusted_list_def list_is_up_to_date_def timedelta_seconds_def
      default_config_def)

subsection \<open>What holds of the report and of the trust manager\<close>

text \<open>
  For an analysis that is a dictionary the handler finds \<open>username\<close> bound, so
  \<open>generate_report\<close> returns a string.
\<close>

lemma generate_report_dict_total:
  "\<exists>r. generate_report repr_other (PDict d) trust_score user_id = Inr r"
  by (auto simp: generate_report_def split: option.splits sum.splits)

text \<open>
  The composed report, truncated or not, is never empty and never longer than 280
  characters; the error text is 64 characters plus the handle.  Hence the limit holds
  whenever the handle prints in at most 216 characters.
\<close>

lemma truncate_report_length: "length (truncate_report parts) \<le> 280"
proof (cases "truncate_report_body parts")
  case (Inl e)
  then show ?thesis by (simp add: truncate_report_def u_def)
next
  case (Inr s)
  then have "length s \<le> 280"
    by (auto simp: truncate_report_body_def then_do_Inr Let_def split: if_splits)
  with Inr show ?thesis by (simp add: truncate_report_def)
qed

lemma truncate_report_nonempty: "truncate_report parts \<noteq> []"
proof (cases "truncate_report_body parts")
  case (Inl e)
  then show ?thesis by (simp add: truncate_report_def)
next
  case (Inr s)
  then have "s \<noteq> []"
    by (auto simp: truncate_report_body_def then_do_Inr Let_def split: if_splits)
  with Inr show ?thesis by (simp add: truncate_report_def)
qed

lemma compose_report_ok:
  assumes "compose_report repr_other username analysis trust_score = Inr r"
  shows "r \<noteq> [] \<and> length r \<le> 280"
proof -
  from assms obtain parts where
    p: "strs_of (report_parts_of repr_other username analysis trust_score) = Inr parts"
    and r: "r = (if length (join_u [10] parts) > 280 then truncate_report parts
                 else join_u [10] parts)"
    by (auto simp: compose_report_def then_do_Inr Let_def split: if_splits)
  from p have "join_u [10] parts \<noteq> []"
    by (cases "generate_trust_status repr_other trust_score")
       (auto simp: report_parts_of_def)
  with r show ?thesis
    by (auto simp: truncate_report_length truncate_report_nonempty)
qed

lemma error_report_length:
  "length (error_report repr_other username) = 64 + length (py_format repr_other username)"
  by (simp add: error_report_def u_def)

lemma report_within_limit:
  assumes "py_get analysis ''username'' (PStr (u ''unknown'')) = Inr username"
      and "length (py_format repr_other username) \<le> 216"
  shows "\<exists>r. generate_report repr_other analysis trust_score user_id = Inr r \<and>
             r \<noteq> [] \<and> length r \<le> 280"
proof (cases "compose_report repr_other username analysis trust_score")
  case (Inl e)
  then have "generate_report repr_other analysis trust_score user_id
               = Inr (error_report repr_other username)"
    by (simp add: generate_report_def assms(1))
  moreover have "error_report repr_other username \<noteq> []"
    by (simp add: error_report_def)
  ultimately show ?thesis using assms(2) by (simp add: error_report_length)
next
  case (Inr r)
  then have "generate_report repr_other analysis trust_score user_id = Inr r"
    by (simp add: generate_report_def assms(1))
  with compose_report_ok[OF Inr] show ?thesis by simp
qed

text \<open>
  The level decided from the number of trusted followers, and the test that lets
  \<open>update_trusted_list\<close> skip the reload.
\<close>

lemma trust_decision_levels:
  "py_getitem (trust_decision cfg trusted_followers) ''trust_level'' =
     Inr (PStr (if int (length trusted_followers) \<ge> MIN_TRUSTED_FOLLOWERS cfg
                then u ''vouched_by_trusted''
                else if trusted_followers \<noteq> [] then u ''partially_vouched''
                else u ''not_vouched'')) \<and>
   py_getitem (trust_decision cfg trusted_followers) ''is_trusted'' =
     Inr (PBool (int (length trusted_followers) \<ge> MIN_TRUSTED_FOLLOWERS cfg))"
  by (simp add: trust_decision_def Let_def)

lemma refresh_gate:
  "list_is_up_to_date cfg now st \<longleftrightarrow>
     (\<exists>t. last_update st = Some t \<and>
          ((now - t) mod 86400000000) div 1000000 < TRUSTED_ACCOUNTS_UPDATE_INTERVAL cfg)"
  by (auto simp: list_is_up_to_date_def timedelta_seconds_def split: option.splits)

lemma refresh_within_a_day:
  assumes "last_update st = Some t" "0 \<le> now - t" "now - t < 86400000000"
  shows "list_is_up_to_date cfg now st \<longleftrightarrow>
           (now - t) div 1000000 < TRUSTED_ACCOUNTS_UPDATE_INTERVAL cfg"
  using assms by (simp add: list_is_up_to_date_def timedelta_seconds_def)

end
